theory Spec2Isabelle
  imports Main
begin

section \<open>The lobby server of main.go\<close>

text \<open>
  A shallow embedding of \<^verbatim>\<open>src/main.go\<close>. Go pointers to \<^verbatim>\<open>Player\<close> objects are addresses
  into an explicit store, because a player object is shared between the session directory,
  the member lists of lobbies and the connection that owns it, and the handlers write its
  fields through that shared pointer. A \<^verbatim>\<open>*Lobby\<close> is referenced from exactly one place, its
  entry in \<^verbatim>\<open>Server.Lobbies\<close>, so the registry maps a code directly to the lobby value and
  a write through the pointer is an update of that entry.

  What lies outside the source is taken as an input: the string returned by
  \<^verbatim>\<open>uuid.New().String()\<close>, and the result of \<^verbatim>\<open>json.Unmarshal\<close> on an inbound payload.

  Every \<^verbatim>\<open>SendChan\<close> is a buffered channel of capacity 256. The state holds the messages
  queued in each; a send on a channel that has room appends to its queue, a send on a full
  channel suspends the handler, and the sends it has not performed yet wait in the state
  until it is resumed. The writer goroutine of a session takes the messages of its channel
  one at a time, and ends when a write to the connection fails.
\<close>

subsection \<open>Data\<close>

type_synonym pref = nat

text \<open>The exported fields of \<^verbatim>\<open>Player\<close>; \<^verbatim>\<open>Conn\<close> and \<^verbatim>\<open>SendChan\<close> are never reassigned.\<close>

record Player =
  Player_ID :: string
  Player_Nickname :: string
  Player_AvatarIdx :: int
  Player_IsHost :: bool

text \<open>
  \<^verbatim>\<open>Lobby\<close>, over the type of its member references: addresses for a lobby of the registry,
  optional player values for a lobby decoded from or encoded to JSON (a nil pointer is
  \<open>None\<close>).
\<close>

record 'p Lobby =
  Lobby_ID :: string
  Lobby_Players :: "'p list"

record Payload =
  Payload_Lobby :: "Player option Lobby option"
  Payload_Player :: "Player option"

subsection \<open>Message types\<close>

definition WsMessageTypeUnknown :: string where "WsMessageTypeUnknown = ''Unknown''"
definition WsMessageTypeError :: string where "WsMessageTypeError = ''Error''"
definition WsMessageTypeCreateLobby :: string where "WsMessageTypeCreateLobby = ''CreateLobby''"
definition WsMessageTypeJoinLobby :: string where "WsMessageTypeJoinLobby = ''JoinLobby''"
definition WsMessageTypePlayerQuit :: string where "WsMessageTypePlayerQuit = ''PlayerQuit''"
definition WsMessageTypeConnected :: string where "WsMessageTypeConnected = ''Connected''"
definition WsMessageTypeLobbyCreated :: string where "WsMessageTypeLobbyCreated = ''LobbyCreated''"
definition WsMessageTypeLobbyJoined :: string where "WsMessageTypeLobbyJoined = ''LobbyJoined''"

subsection \<open>Encoding to JSON\<close>

text \<open>
  The bytes produced by \<^verbatim>\<open>json.Marshal\<close> are represented by the JSON value they spell:
  an object is the list of its members in the order written. The encoders follow the
  struct tags: every field of \<^verbatim>\<open>Player\<close>, \<^verbatim>\<open>Lobby\<close> and \<^verbatim>\<open>Payload\<close> is \<^verbatim>\<open>omitempty\<close>
  (left out when it is the empty string, zero, false, an empty slice or a nil pointer),
  the two fields of \<^verbatim>\<open>WsMessage\<close> are always written.
\<close>

datatype json =
  JNull
  | JBool bool
  | JNum int
  | JStr string
  | JArr "json list"
  | JObj "(string \<times> json) list"

text \<open>A send: the session whose channel receives, and the message.\<close>

type_synonym send = "pref \<times> json"

text \<open>
  The shared state: the two maps of \<^verbatim>\<open>Server\<close>, the store of player objects, and for the
  session at each address the messages queued in its \<^verbatim>\<open>SendChan\<close> (oldest first), whether
  its writer goroutine is running, and the sends its suspended handler has still to
  perform (none when no handler of the session is suspended); last the next free address.
\<close>

record world =
  Server_Lobbies :: "string \<rightharpoonup> pref Lobby"
  Server_Players :: "string \<rightharpoonup> pref"
  heap :: "pref \<rightharpoonup> Player"
  chans :: "pref \<Rightarrow> json list"
  writers :: "pref \<Rightarrow> bool"
  pending :: "pref \<Rightarrow> send list"
  nextRef :: pref

definition server :: world where
  "server = \<lparr>Server_Lobbies = Map.empty, Server_Players = Map.empty,
     heap = Map.empty, chans = (\<lambda>p. []), writers = (\<lambda>p. False), pending = (\<lambda>p. []),
     nextRef = 0\<rparr>"

text \<open>The capacity of a \<^verbatim>\<open>SendChan\<close>: \<^verbatim>\<open>make(chan []byte, 256)\<close>.\<close>

definition sendChanCap :: nat where
  "sendChanCap = 256"

definition marshalPlayer :: "Player \<Rightarrow> json" where
  "marshalPlayer p = JObj
     ((if Player_ID p = [] then [] else [(''id'', JStr (Player_ID p))]) @
      (if Player_Nickname p = [] then [] else [(''nickname'', JStr (Player_Nickname p))]) @
      (if Player_AvatarIdx p = 0 then [] else [(''avatarIdx'', JNum (Player_AvatarIdx p))]) @
      (if Player_IsHost p then [(''isHost'', JBool True)] else []))"

definition marshalPlayerPtr :: "Player option \<Rightarrow> json" where
  "marshalPlayerPtr p = (case p of None \<Rightarrow> JNull | Some pl \<Rightarrow> marshalPlayer pl)"

definition marshalLobby :: "Player option Lobby \<Rightarrow> json" where
  "marshalLobby l = JObj
     ((if Lobby_ID l = [] then [] else [(''id'', JStr (Lobby_ID l))]) @
      (if Lobby_Players l = [] then []
       else [(''players'', JArr (map marshalPlayerPtr (Lobby_Players l)))]))"

definition marshalPayload :: "Payload \<Rightarrow> json" where
  "marshalPayload payload = JObj
     ((case Payload_Lobby payload of None \<Rightarrow> [] | Some l \<Rightarrow> [(''lobby'', marshalLobby l)]) @
      (case Payload_Player payload of None \<Rightarrow> [] | Some p \<Rightarrow> [(''player'', marshalPlayer p)]))"

definition marshalWsMessage :: "string \<Rightarrow> json \<Rightarrow> json" where
  "marshalWsMessage ty payloadJson = JObj [(''type'', JStr ty), (''payload'', payloadJson)]"

text \<open>What the encoder reads through a \<^verbatim>\<open>*Lobby\<close>: the fields of its members at this moment.\<close>

definition derefLobby :: "world \<Rightarrow> pref Lobby \<Rightarrow> Player option Lobby" where
  "derefLobby w l = \<lparr>Lobby_ID = Lobby_ID l, Lobby_Players = map (heap w) (Lobby_Players l)\<rparr>"

definition generateConnectedMsg :: "world \<Rightarrow> pref \<Rightarrow> json" where
  "generateConnectedMsg w player =
     marshalWsMessage WsMessageTypeConnected
       (marshalPayload \<lparr>Payload_Lobby = None, Payload_Player = heap w player\<rparr>)"

definition generateLobbyCreatedMsg :: "world \<Rightarrow> pref Lobby option \<Rightarrow> json" where
  "generateLobbyCreatedMsg w lobby =
     marshalWsMessage WsMessageTypeLobbyCreated
       (marshalPayload \<lparr>Payload_Lobby = map_option (derefLobby w) lobby, Payload_Player = None\<rparr>)"

definition generateLobbyJoinedMsg :: "world \<Rightarrow> pref Lobby option \<Rightarrow> json" where
  "generateLobbyJoinedMsg w lobby =
     marshalWsMessage WsMessageTypeLobbyJoined
       (marshalPayload \<lparr>Payload_Lobby = map_option (derefLobby w) lobby, Payload_Player = None\<rparr>)"

definition errorResponse :: "string \<Rightarrow> json" where
  "errorResponse message = JObj [(''type'', JStr WsMessageTypeError), (''message'', JStr message)]"

subsection \<open>Errors and locks\<close>

text \<open>The two \<^verbatim>\<open>fmt.Errorf\<close> sites of \<^verbatim>\<open>joinLobby\<close>, and the text \<^verbatim>\<open>err.Error()\<close> gives.\<close>

datatype error = LobbyNotFound string | LobbyFull string

fun Error :: "error \<Rightarrow> string" where
  "Error (LobbyNotFound lobbyID) = ''ERROR: lobby with id '' @ lobbyID @ '' not found''"
| "Error (LobbyFull lobbyID) = ''ERROR: lobby with id '' @ lobbyID @ '' is already full''"

text \<open>
  The mutexes: \<^verbatim>\<open>Server.mu\<close>, and \<^verbatim>\<open>Lobby.mu\<close> of the lobby registered under a code. The
  registry operations return, besides their result, the lock operations they perform in
  program order; a deferred unlock is performed when the function returns.
\<close>

datatype mutex = ServerMu | LobbyMu string

datatype lock_op = Lock mutex | Unlock mutex

subsection \<open>The registry operations\<close>

text \<open>
  \<^verbatim>\<open>createLobby\<close>. The argument \<open>uuid\<close> is the string \<^verbatim>\<open>uuid.New().String()\<close> returns; the
  slice \<^verbatim>\<open>[:6]\<close> panics on a shorter string, which is the result \<open>None\<close>. The error result
  of the Go function is always nil.
\<close>

definition createLobby ::
  "world \<Rightarrow> pref \<Rightarrow> string \<Rightarrow> (error + pref Lobby) option \<times> lock_op list \<times> world" where
  "createLobby s player uuid =
     (if length uuid < 6 then (None, [], s)
      else
        let lobbyID = take 6 uuid;
            lobby = \<lparr>Lobby_ID = lobbyID, Lobby_Players = [player]\<rparr>
        in (Some (Inr lobby), [Lock ServerMu, Unlock ServerMu],
            s\<lparr>Server_Lobbies := (Server_Lobbies s)(lobbyID \<mapsto> lobby)\<rparr>))"

definition joinLobby ::
  "world \<Rightarrow> pref \<Rightarrow> string \<Rightarrow> (error + pref Lobby) \<times> lock_op list \<times> world" where
  "joinLobby s player lobbyID =
     (case Server_Lobbies s lobbyID of
        None \<Rightarrow> (Inl (LobbyNotFound lobbyID), [Lock ServerMu] @ [Unlock ServerMu], s)
      | Some lobby \<Rightarrow>
          if length (Lobby_Players lobby) \<ge> 2
          then (Inl (LobbyFull lobbyID), [Lock ServerMu] @ [Unlock ServerMu], s)
          else
            let lobby' = lobby\<lparr>Lobby_Players := Lobby_Players lobby @ [player]\<rparr>
            in (Inr lobby',
                [Lock ServerMu] @ [Lock (LobbyMu lobbyID), Unlock (LobbyMu lobbyID)] @
                [Unlock ServerMu],
                s\<lparr>Server_Lobbies := (Server_Lobbies s)(lobbyID \<mapsto> lobby')\<rparr>))"

subsection \<open>The handlers\<close>

text \<open>
  The channel sends \<^verbatim>\<open>ch <- msg\<close> of a handler, in program order. Each is performed if its
  channel holds fewer than 256 messages; the first that finds its channel full is not
  performed, nor are those after it. The result is the sends performed, the sends left,
  and the state.
\<close>

fun sendAll :: "world \<Rightarrow> send list \<Rightarrow> send list \<times> send list \<times> world" where
  "sendAll w [] = ([], [], w)"
| "sendAll w ((q, m) # rest) =
     (if length (chans w q) < sendChanCap
      then (case sendAll (w\<lparr>chans := (chans w)(q := chans w q @ [m])\<rparr>) rest of
              (done, left, w') \<Rightarrow> ((q, m) # done, left, w'))
      else ([], (q, m) # rest, w))"

text \<open>
  A handler returns, panics (a nil pointer dereference, or the slice above) or is
  suspended on a send; in every case the writes it made before are in the state it
  leaves. It also yields the sends it performed. All sends of a handler are its last
  statements: a handler of session \<open>player\<close> that is suspended leaves the sends it has
  still to perform in \<open>pending\<close>.
\<close>

datatype outcome = Returned | Panicked | Blocked

definition performSends :: "world \<Rightarrow> pref \<Rightarrow> send list \<Rightarrow> outcome \<times> send list \<times> world" where
  "performSends w player msgs =
     (case sendAll w msgs of
        (done, left, w') \<Rightarrow>
          if left = [] then (Returned, done, w')
          else (Blocked, done, w'\<lparr>pending := (pending w')(player := left)\<rparr>))"

text \<open>
  The argument \<open>decoded\<close> of a handler is the result of \<^verbatim>\<open>json.Unmarshal\<close> on the payload:
  \<open>None\<close> when it returns an error.
\<close>

definition handleCreateLobby ::
  "world \<Rightarrow> pref \<Rightarrow> Payload option \<Rightarrow> string \<Rightarrow> outcome \<times> send list \<times> world" where
  "handleCreateLobby w player decoded uuid =
     (case decoded of
        None \<Rightarrow> (Returned, [], w)
      | Some payload \<Rightarrow>
          (case heap w player of
             None \<Rightarrow> (Panicked, [], w)
           | Some pl \<Rightarrow>
               let pl1 = pl\<lparr>Player_IsHost := True\<rparr>;
                   w1 = w\<lparr>heap := (heap w)(player \<mapsto> pl1)\<rparr>
               in (case Payload_Player payload of
                     None \<Rightarrow> (Panicked, [], w1)
                   | Some payloadPlayer \<Rightarrow>
                       let pl2 = pl1\<lparr>Player_AvatarIdx := Player_AvatarIdx payloadPlayer,
                                     Player_Nickname := Player_Nickname payloadPlayer\<rparr>;
                           w2 = w1\<lparr>heap := (heap w1)(player \<mapsto> pl2)\<rparr>
                       in (case createLobby w2 player uuid of
                             (None, _, w3) \<Rightarrow> (Panicked, [], w3)
                           | (Some r, _, w3) \<Rightarrow>
                               let lobby = (case r of Inl err \<Rightarrow> None | Inr l \<Rightarrow> Some l)
                               in performSends w3 player
                                    [(player, generateLobbyCreatedMsg w3 lobby)]))))"

definition handleJoinLobby ::
  "world \<Rightarrow> pref \<Rightarrow> Payload option \<Rightarrow> outcome \<times> send list \<times> world" where
  "handleJoinLobby w player decoded =
     (case decoded of
        None \<Rightarrow> (Returned, [], w)
      | Some payload \<Rightarrow>
          (case heap w player of
             None \<Rightarrow> (Panicked, [], w)
           | Some pl \<Rightarrow>
               let pl1 = pl\<lparr>Player_IsHost := False\<rparr>;
                   w1 = w\<lparr>heap := (heap w)(player \<mapsto> pl1)\<rparr>
               in (case Payload_Player payload of
                     None \<Rightarrow> (Panicked, [], w1)
                   | Some payloadPlayer \<Rightarrow>
                       let pl2 = pl1\<lparr>Player_AvatarIdx := Player_AvatarIdx payloadPlayer,
                                     Player_Nickname := Player_Nickname payloadPlayer\<rparr>;
                           w2 = w1\<lparr>heap := (heap w1)(player \<mapsto> pl2)\<rparr>
                       in (case Payload_Lobby payload of
                             None \<Rightarrow> (Panicked, [], w2)
                           | Some payloadLobby \<Rightarrow>
                               (case joinLobby w2 player (Lobby_ID payloadLobby) of
                                  (Inl err, _, w3) \<Rightarrow>
                                    performSends w3 player
                                      [(player, errorResponse (Error err))]
                                | (Inr lobby, _, w3) \<Rightarrow>
                                    let msg = generateLobbyJoinedMsg w3 (Some lobby)
                                    in performSends w3 player
                                         (map (\<lambda>lobbyPlayer. (lobbyPlayer, msg))
                                            (Lobby_Players lobby)))))))"

definition handlerPlayerQuit :: "world \<Rightarrow> pref \<Rightarrow> outcome \<times> send list \<times> world" where
  "handlerPlayerQuit w player =
     (case heap w player of
        None \<Rightarrow> (Panicked, [], w)
      | Some pl \<Rightarrow>
          (Returned, [],
           w\<lparr>Server_Players := (Server_Players w)(Player_ID pl := None)\<rparr>))"

subsection \<open>Connections\<close>

text \<open>
  The part of \<^verbatim>\<open>handleWebSocket\<close> before its loop: a new player object with a fresh
  address and a new, empty channel, registered under its id; the \<^verbatim>\<open>Connected\<close> message is
  sent on the channel, which has room for it; the writer goroutine is started.
\<close>

definition connect :: "world \<Rightarrow> string \<Rightarrow> pref \<times> send list \<times> world" where
  "connect w uuid =
     (let player = nextRef w;
          pl = \<lparr>Player_ID = uuid, Player_Nickname = [], Player_AvatarIdx = 0,
                Player_IsHost = False\<rparr>;
          w1 = w\<lparr>heap := (heap w)(player \<mapsto> pl), chans := (chans w)(player := []),
                pending := (pending w)(player := []), nextRef := Suc (nextRef w)\<rparr>;
          w2 = w1\<lparr>Server_Players := (Server_Players w1)(Player_ID pl \<mapsto> player)\<rparr>;
          msg = generateConnectedMsg w2 player;
          w3 = w2\<lparr>chans := (chans w2)(player := chans w2 player @ [msg])\<rparr>;
          w4 = w3\<lparr>writers := (writers w3)(player := True)\<rparr>
      in (player, [(player, msg)], w4))"

text \<open>
  One turn of the loop of \<^verbatim>\<open>writer\<close>, for a writer that is running and a channel that is not
  empty: the oldest message is taken from the channel and written to the connection. The
  argument \<open>ok\<close> tells whether \<^verbatim>\<open>WriteMessage\<close> returned no error; when it returned one
  the writer ends.
\<close>

definition writer :: "world \<Rightarrow> pref \<Rightarrow> bool \<Rightarrow> world" where
  "writer w player ok =
     (if writers w player
      then (case chans w player of
              [] \<Rightarrow> w
            | message # queue \<Rightarrow>
                w\<lparr>chans := (chans w)(player := queue), writers := (writers w)(player := ok)\<rparr>)
      else w)"

text \<open>
  A suspended handler of a session goes on: it performs the sends it has left, as far as
  the channels have room.
\<close>

definition resume :: "world \<Rightarrow> pref \<Rightarrow> send list \<times> world" where
  "resume w player =
     (case sendAll w (pending w player) of
        (done, left, w') \<Rightarrow> (done, w'\<lparr>pending := (pending w')(player := left)\<rparr>))"

text \<open>
  One turn of the loop on a frame whose envelope decoded: the switch on the type. A frame
  whose envelope does not decode is skipped by the loop and changes nothing.
\<close>

definition dispatch ::
  "world \<Rightarrow> pref \<Rightarrow> string \<Rightarrow> Payload option \<Rightarrow> string \<Rightarrow> outcome \<times> send list \<times> world" where
  "dispatch w player msgType decoded uuid =
     (if msgType = WsMessageTypeCreateLobby then handleCreateLobby w player decoded uuid
      else if msgType = WsMessageTypeJoinLobby then handleJoinLobby w player decoded
      else if msgType = WsMessageTypePlayerQuit then handlerPlayerQuit w player
      else (Returned, [], w))"

subsection \<open>Runs\<close>

text \<open>
  What can happen to the server: a client connects; the loop of a session takes a frame,
  which it does only when no handler of the session is suspended; the writer of a session
  takes a message; a suspended handler goes on. A run is a sequence of such events from
  the initial server; the state after a panic is kept, since the other connections go on.
\<close>

datatype event =
  Connect string
  | Inbound pref string "Payload option" string
  | Write pref bool
  | Resume pref

fun step :: "world \<Rightarrow> event \<Rightarrow> world" where
  "step w (Connect uuid) = snd (snd (connect w uuid))"
| "step w (Inbound player msgType decoded uuid) =
     (if pending w player = [] then snd (snd (dispatch w player msgType decoded uuid)) else w)"
| "step w (Write player ok) = writer w player ok"
| "step w (Resume player) = snd (resume w player)"

text \<open>The sends performed at an event.\<close>

fun sends :: "world \<Rightarrow> event \<Rightarrow> send list" where
  "sends w (Connect uuid) = fst (snd (connect w uuid))"
| "sends w (Inbound player msgType decoded uuid) =
     (if pending w player = [] then fst (snd (dispatch w player msgType decoded uuid)) else [])"
| "sends w (Write player ok) = []"
| "sends w (Resume player) = fst (resume w player)"


text \<open>The events at which a suspended handler goes on.\<close>

fun isResume :: "event \<Rightarrow> bool" where
  "isResume (Resume player) = True"
| "isResume e = False"

definition run :: "world \<Rightarrow> event list \<Rightarrow> world" where
  "run w evs = foldl step w evs"

subsection \<open>Auxiliary notions for the properties\<close>

text \<open>
  The state of the registry that every run keeps: a lobby is registered under its own
  code and has one or two members.
\<close>

definition lobbies_ok :: "world \<Rightarrow> bool" where
  "lobbies_ok w =
     (\<forall>c l. Server_Lobbies w c = Some l \<longrightarrow>
        Lobby_ID l = c \<and> (length (Lobby_Players l) = 1 \<or> length (Lobby_Players l) = 2))"

text \<open>
  The ids of the player objects, and the state of the session directory that every run
  keeps: a session is registered under the id of its object, and every object has an
  address below the next free one.
\<close>

definition ids :: "world \<Rightarrow> pref \<Rightarrow> string option" where
  "ids w q = map_option Player_ID (heap w q)"

definition directory_ok :: "world \<Rightarrow> bool" where
  "directory_ok w =
     ((\<forall>k q. Server_Players w k = Some q \<longrightarrow> ids w q = Some k) \<and>
      (\<forall>q. ids w q \<noteq> None \<longrightarrow> q < nextRef w))"

text \<open>
  The state after the three assignments with which \<^verbatim>\<open>handleCreateLobby\<close> (\<open>h\<close> true) and
  \<^verbatim>\<open>handleJoinLobby\<close> (\<open>h\<close> false) begin, for a session whose object was \<open>pl\<close>.
\<close>

definition stamped :: "world \<Rightarrow> pref \<Rightarrow> Player \<Rightarrow> bool \<Rightarrow> Player \<Rightarrow> world" where
  "stamped w p pl h pp =
     w\<lparr>heap := (heap w)(p \<mapsto> pl\<lparr>Player_IsHost := h,
        Player_AvatarIdx := Player_AvatarIdx pp, Player_Nickname := Player_Nickname pp\<rparr>)\<rparr>"

text \<open>
  The envelope \<open>{type, payload}\<close>: an object with exactly the members \<open>type\<close> and
  \<open>payload\<close>, in this order, whose \<open>type\<close> is one of the outbound type names.
\<close>

definition outboundTypes :: "string list" where
  "outboundTypes = [WsMessageTypeConnected, WsMessageTypeLobbyCreated,
     WsMessageTypeLobbyJoined, WsMessageTypeError]"

definition envelopeShape :: "json \<Rightarrow> bool" where
  "envelopeShape j =
     (case j of
        JObj ms \<Rightarrow>
          map fst ms = [''type'', ''payload''] \<and>
          (case map_of ms ''type'' of
             Some (JStr ty) \<Rightarrow> ty \<in> set outboundTypes
           | _ \<Rightarrow> False)
      | _ \<Rightarrow> False)"

text \<open>
  The two shapes of the messages the server makes: the envelope, and the object that
  \<^verbatim>\<open>errorResponse\<close> makes of the text of an error.
\<close>

definition outboundShape :: "json \<Rightarrow> bool" where
  "outboundShape m = (envelopeShape m \<or> (\<exists>err. m = errorResponse (Error err)))"

text \<open>The state of the channels that every run keeps: every message queued in a channel
  or still to be sent has one of the two shapes.\<close>

definition messages_ok :: "world \<Rightarrow> bool" where
  "messages_ok w =
     ((\<forall>q m. m \<in> set (chans w q) \<longrightarrow> outboundShape m) \<and>
      (\<forall>p s. s \<in> set (pending w p) \<longrightarrow> outboundShape (snd s)))"

text \<open>
  The mutexes held before and after each operation of a sequence of lock operations,
  starting with \<open>h\<close> held.
\<close>

fun holds :: "mutex list \<Rightarrow> lock_op list \<Rightarrow> mutex list list" where
  "holds h [] = [h]"
| "holds h (Lock m # ops) = h # holds (m # h) ops"
| "holds h (Unlock m # ops) = h # holds (remove1 m h) ops"

text \<open>
  Decoded payloads of well-formed frames, for the examples: a \<^verbatim>\<open>CreateLobby\<close> payload
  \<^verbatim>\<open>{"player":{"nickname":n,"avatarIdx":i}}\<close>, a \<^verbatim>\<open>JoinLobby\<close> payload that has
  \<^verbatim>\<open>"lobby":{"id":code}\<close> as well, and the payload \<^verbatim>\<open>{}\<close>.
\<close>

definition framePlayer :: "string \<Rightarrow> int \<Rightarrow> Player" where
  "framePlayer n i =
     \<lparr>Player_ID = [], Player_Nickname = n, Player_AvatarIdx = i, Player_IsHost = False\<rparr>"

definition createFrame :: "string \<Rightarrow> int \<Rightarrow> Payload option" where
  "createFrame n i = Some \<lparr>Payload_Lobby = None, Payload_Player = Some (framePlayer n i)\<rparr>"

definition joinFrame :: "string \<Rightarrow> int \<Rightarrow> string \<Rightarrow> Payload option" where
  "joinFrame n i code =
     Some \<lparr>Payload_Lobby = Some \<lparr>Lobby_ID = code, Lobby_Players = []\<rparr>,
           Payload_Player = Some (framePlayer n i)\<rparr>"

definition emptyFrame :: "Payload option" where
  "emptyFrame = Some \<lparr>Payload_Lobby = None, Payload_Player = None\<rparr>"

text \<open>
  Strings of the form \<^verbatim>\<open>uuid.New().String()\<close> returns: ids of three sessions, and four
  from which lobby codes are cut, the first two with the same first six characters.
\<close>

definition uuidA :: string where "uuidA = ''6ba7b810-9dad-41d1-80b4-00c04fd430c8''"
definition uuidB :: string where "uuidB = ''7c9e6679-7425-40de-944b-e07fc1f90ae7''"
definition uuidC :: string where "uuidC = ''e4eaaaf2-d142-41b5-b9be-0e8f6a0c5d3a''"
definition uuid1 :: string where "uuid1 = ''3f2a9c1e-5b7d-4c8a-9e0f-1a2b3c4d5e6f''"
definition uuid2 :: string where "uuid2 = ''3f2a9c77-0d1e-4f2a-8b3c-4d5e6f708192''"
definition uuid3 :: string where "uuid3 = ''b81d4fae-7dec-41d0-a765-00a0c91e6bf6''"
definition uuid4 :: string where "uuid4 = ''c56a4180-65aa-42ec-a945-5fd21dec0538''"

text \<open>Example runs. Sessions get the addresses 0, 1, 2 in the order they connect.\<close>

definition oneCreate :: "event list" where
  "oneCreate = [Connect uuidA, Connect uuidB,
     Inbound 0 WsMessageTypeCreateLobby (createFrame ''A'' 0) uuid1]"

definition twoLobbies :: "event list" where
  "twoLobbies = oneCreate @ [Inbound 1 WsMessageTypeCreateLobby (createFrame ''B'' 1) uuid3]"

definition pairedLobby :: "event list" where
  "pairedLobby = [Connect uuidA, Connect uuidB, Connect uuidC,
     Inbound 0 WsMessageTypeCreateLobby (createFrame ''A'' 0) uuid1,
     Inbound 1 WsMessageTypeJoinLobby (joinFrame ''B'' 1 ''3f2a9c'') []]"

definition fullLobby :: "event list" where
  "fullLobby = pairedLobby @ [Inbound 2 WsMessageTypeJoinLobby (joinFrame ''C'' 2 ''3f2a9c'') []]"

definition hostJoinsElsewhere :: "event list" where
  "hostJoinsElsewhere =
     twoLobbies @ [Inbound 0 WsMessageTypeJoinLobby (joinFrame ''A'' 0 ''b81d4f'') []]"

definition guestCreates :: "event list" where
  "guestCreates =
     hostJoinsElsewhere @ [Inbound 0 WsMessageTypeCreateLobby (createFrame ''A'' 0) uuid4]"




text \<open>The \<^verbatim>\<open>LobbyJoined\<close> message of the example in which session 1 joins the lobby of
  session 0.\<close>

definition exampleJoinedMsg :: json where
  "exampleJoinedMsg =
     JObj [(''type'', JStr ''LobbyJoined''),
       (''payload'', JObj [(''lobby'', JObj [(''id'', JStr ''3f2a9c''),
          (''players'', JArr
             [JObj [(''id'', JStr uuidA), (''nickname'', JStr ''A''), (''isHost'', JBool True)],
              JObj [(''id'', JStr uuidB), (''nickname'', JStr ''B''), (''avatarIdx'', JNum 1)]])])])]"

section \<open>Basic facts\<close>

lemmas WsMessageType_defs =
  WsMessageTypeUnknown_def WsMessageTypeError_def WsMessageTypeCreateLobby_def
  WsMessageTypeJoinLobby_def WsMessageTypePlayerQuit_def WsMessageTypeConnected_def
  WsMessageTypeLobbyCreated_def WsMessageTypeLobbyJoined_def

text \<open>The equations that evaluate a run on given events.\<close>

lemmas marshal_defs =
  generateConnectedMsg_def generateLobbyCreatedMsg_def generateLobbyJoinedMsg_def
  errorResponse_def marshalWsMessage_def marshalPayload_def marshalLobby_def
  marshalPlayerPtr_def marshalPlayer_def derefLobby_def

lemmas eval_defs =
  run_def dispatch_def handleCreateLobby_def handleJoinLobby_def handlerPlayerQuit_def
  createLobby_def joinLobby_def connect_def writer_def resume_def performSends_def
  sendChanCap_def server_def Let_def WsMessageType_defs marshal_defs
  createFrame_def joinFrame_def emptyFrame_def framePlayer_def
  uuidA_def uuidB_def uuidC_def uuid1_def uuid2_def uuid3_def uuid4_def
  oneCreate_def twoLobbies_def pairedLobby_def fullLobby_def
  hostJoinsElsewhere_def guestCreates_def

subsection \<open>Sends change the channels only\<close>

lemma sendAll_frame:
  "Server_Lobbies (snd (snd (sendAll w msgs))) = Server_Lobbies w"
  "Server_Players (snd (snd (sendAll w msgs))) = Server_Players w"
  "heap (snd (snd (sendAll w msgs))) = heap w"
  "writers (snd (snd (sendAll w msgs))) = writers w"
  "pending (snd (snd (sendAll w msgs))) = pending w"
  "nextRef (snd (snd (sendAll w msgs))) = nextRef w"
  by (induction w msgs rule: sendAll.induct; simp add: split_def)+

lemma sendAll_parts: "fst (sendAll w msgs) @ fst (snd (sendAll w msgs)) = msgs"
  by (induction w msgs rule: sendAll.induct) (simp_all add: split_def)

lemma performSends_frame [simp]:
  "Server_Lobbies (snd (snd (performSends w p msgs))) = Server_Lobbies w"
  "Server_Players (snd (snd (performSends w p msgs))) = Server_Players w"
  "heap (snd (snd (performSends w p msgs))) = heap w"
  "writers (snd (snd (performSends w p msgs))) = writers w"
  "nextRef (snd (snd (performSends w p msgs))) = nextRef w"
  by (simp_all add: performSends_def split_def sendAll_frame)

lemma performSends_sends: "set (fst (snd (performSends w p msgs))) \<subseteq> set msgs"
proof -
  have "set (fst (sendAll w msgs)) \<subseteq> set msgs"
    using sendAll_parts [of w msgs] by (metis set_append Un_upper1)
  then show ?thesis
    by (simp add: performSends_def split_def)
qed

lemma resume_frame [simp]:
  "Server_Lobbies (snd (resume w p)) = Server_Lobbies w"
  "Server_Players (snd (resume w p)) = Server_Players w"
  "heap (snd (resume w p)) = heap w"
  "writers (snd (resume w p)) = writers w"
  "nextRef (snd (resume w p)) = nextRef w"
  by (simp_all add: resume_def split_def sendAll_frame)

lemma writer_frame [simp]:
  "Server_Lobbies (writer w p ok) = Server_Lobbies w"
  "Server_Players (writer w p ok) = Server_Players w"
  "heap (writer w p ok) = heap w"
  "pending (writer w p ok) = pending w"
  "nextRef (writer w p ok) = nextRef w"
  by (simp_all add: writer_def split: list.splits)

subsection \<open>The registry after each operation\<close>

lemma lobbies_ok_server: "lobbies_ok server"
  by (simp add: lobbies_ok_def server_def)

lemma lobbies_ok_same: "Server_Lobbies w' = Server_Lobbies w \<Longrightarrow> lobbies_ok w' = lobbies_ok w"
  by (simp add: lobbies_ok_def)

lemma createLobby_lobbies:
  "Server_Lobbies (snd (snd (createLobby s p uuid))) =
     (if length uuid < 6 then Server_Lobbies s
      else (Server_Lobbies s)(take 6 uuid \<mapsto> \<lparr>Lobby_ID = take 6 uuid, Lobby_Players = [p]\<rparr>))"
  by (simp add: createLobby_def Let_def)

lemma lobbies_ok_createLobby: "lobbies_ok s \<Longrightarrow> lobbies_ok (snd (snd (createLobby s p uuid)))"
  unfolding lobbies_ok_def createLobby_lobbies by auto

lemma lobbies_ok_append:
  assumes ok: "lobbies_ok w" and l: "Server_Lobbies w c = Some l"
    and room: "\<not> 2 \<le> length (Lobby_Players l)"
    and m: "m = (Server_Lobbies w)(c \<mapsto> l\<lparr>Lobby_Players := Lobby_Players l @ [p]\<rparr>)"
    and w': "Server_Lobbies w' = m"
  shows "lobbies_ok w'"
proof -
  from ok l have "Lobby_ID l = c" and "length (Lobby_Players l) = 1 \<or> length (Lobby_Players l) = 2"
    unfolding lobbies_ok_def by blast+
  with room have "Lobby_ID l = c" and "length (Lobby_Players l) = 1" by auto
  with ok show ?thesis
    unfolding lobbies_ok_def w' m by auto
qed

lemma joinLobby_lobbies:
  "Server_Lobbies (snd (snd (joinLobby s p c))) =
     (case Server_Lobbies s c of None \<Rightarrow> Server_Lobbies s
      | Some l \<Rightarrow> if length (Lobby_Players l) \<ge> 2 then Server_Lobbies s
          else (Server_Lobbies s)(c \<mapsto> l\<lparr>Lobby_Players := Lobby_Players l @ [p]\<rparr>))"
  by (simp add: joinLobby_def Let_def split: option.splits)

lemma lobbies_ok_joinLobby: "lobbies_ok s \<Longrightarrow> lobbies_ok (snd (snd (joinLobby s p c)))"
proof (cases "Server_Lobbies s c")
  case None
  assume "lobbies_ok s"
  with None show ?thesis by (simp add: lobbies_ok_def joinLobby_lobbies)
next
  case (Some l)
  assume ok: "lobbies_ok s"
  show ?thesis
  proof (cases "2 \<le> length (Lobby_Players l)")
    case True
    with Some ok show ?thesis by (simp add: lobbies_ok_def joinLobby_lobbies)
  next
    case False
    show ?thesis
      by (rule lobbies_ok_append [OF ok Some False refl]) (simp add: joinLobby_lobbies Some False)
  qed
qed

lemma joinLobby_frame:
  "Server_Players (snd (snd (joinLobby s p c))) = Server_Players s"
  "heap (snd (snd (joinLobby s p c))) = heap s"
  "chans (snd (snd (joinLobby s p c))) = chans s"
  "writers (snd (snd (joinLobby s p c))) = writers s"
  "pending (snd (snd (joinLobby s p c))) = pending s"
  "nextRef (snd (snd (joinLobby s p c))) = nextRef s"
  by (simp_all add: joinLobby_def Let_def split: option.splits)

lemma joinLobby_full:
  "Server_Lobbies s c = Some l \<Longrightarrow> 2 \<le> length (Lobby_Players l) \<Longrightarrow>
     joinLobby s p c = (Inl (LobbyFull c), [Lock ServerMu, Unlock ServerMu], s)"
  by (simp add: joinLobby_def)

lemma joinLobby_unknown:
  "Server_Lobbies s c = None \<Longrightarrow>
     joinLobby s p c = (Inl (LobbyNotFound c), [Lock ServerMu, Unlock ServerMu], s)"
  by (simp add: joinLobby_def)

lemma joinLobby_room:
  "Server_Lobbies s c = Some l \<Longrightarrow> length (Lobby_Players l) < 2 \<Longrightarrow>
     joinLobby s p c =
       (Inr (l\<lparr>Lobby_Players := Lobby_Players l @ [p]\<rparr>),
        [Lock ServerMu, Lock (LobbyMu c), Unlock (LobbyMu c), Unlock ServerMu],
        s\<lparr>Server_Lobbies := (Server_Lobbies s)(c \<mapsto> l\<lparr>Lobby_Players := Lobby_Players l @ [p]\<rparr>)\<rparr>)"
  by (simp add: joinLobby_def Let_def)

lemma handleCreateLobby_lobbies:
  "Server_Lobbies (snd (snd (handleCreateLobby w p d uuid))) =
     (case d of None \<Rightarrow> Server_Lobbies w
      | Some payload \<Rightarrow>
         (case heap w p of None \<Rightarrow> Server_Lobbies w
          | Some pl \<Rightarrow>
             (case Payload_Player payload of None \<Rightarrow> Server_Lobbies w
              | Some pp \<Rightarrow> if length uuid < 6 then Server_Lobbies w
                  else (Server_Lobbies w)(take 6 uuid \<mapsto> \<lparr>Lobby_ID = take 6 uuid, Lobby_Players = [p]\<rparr>))))"
  by (simp add: handleCreateLobby_def createLobby_def Let_def split_def split: option.splits)

lemma lobbies_ok_handleCreateLobby:
  "lobbies_ok w \<Longrightarrow> lobbies_ok (snd (snd (handleCreateLobby w p d uuid)))"
  unfolding lobbies_ok_def handleCreateLobby_lobbies
  by (auto split: option.splits)

lemma stamped_frame [simp]:
  "Server_Lobbies (stamped w p pl h pp) = Server_Lobbies w"
  "Server_Players (stamped w p pl h pp) = Server_Players w"
  "chans (stamped w p pl h pp) = chans w"
  "writers (stamped w p pl h pp) = writers w"
  "pending (stamped w p pl h pp) = pending w"
  "nextRef (stamped w p pl h pp) = nextRef w"
  by (simp_all add: stamped_def)

lemma handleCreateLobby_ok:
  assumes "heap w p = Some pl" "Payload_Player payload = Some pp" "6 \<le> length uuid"
  shows "handleCreateLobby w p (Some payload) uuid =
     (let lobby = \<lparr>Lobby_ID = take 6 uuid, Lobby_Players = [p]\<rparr>;
          w3 = (stamped w p pl True pp)
                 \<lparr>Server_Lobbies := (Server_Lobbies w)(take 6 uuid \<mapsto> lobby)\<rparr>
      in performSends w3 p [(p, generateLobbyCreatedMsg w3 (Some lobby))])"
  using assms by (simp add: handleCreateLobby_def createLobby_def stamped_def Let_def)

lemma handleJoinLobby_ok:
  assumes "heap w p = Some pl" "Payload_Player payload = Some pp" "Payload_Lobby payload = Some lb"
  shows "handleJoinLobby w p (Some payload) =
     (case joinLobby (stamped w p pl False pp) p (Lobby_ID lb) of
        (Inl err, _, w3) \<Rightarrow> performSends w3 p [(p, errorResponse (Error err))]
      | (Inr lobby, _, w3) \<Rightarrow>
          performSends w3 p
            (map (\<lambda>q. (q, generateLobbyJoinedMsg w3 (Some lobby))) (Lobby_Players lobby)))"
  using assms by (simp add: handleJoinLobby_def stamped_def Let_def split_def split: sum.splits)

lemma handleJoinLobby_registry:
  assumes "heap w p = Some pl" "Payload_Player payload = Some pp" "Payload_Lobby payload = Some lb"
  shows "Server_Lobbies (snd (snd (handleJoinLobby w p (Some payload)))) =
     Server_Lobbies (snd (snd (joinLobby (stamped w p pl False pp) p (Lobby_ID lb))))"
  unfolding handleJoinLobby_ok [OF assms]
  by (simp add: split_def split: sum.splits)

lemma handleJoinLobby_heap:
  assumes "heap w p = Some pl" "Payload_Player payload = Some pp" "Payload_Lobby payload = Some lb"
  shows "heap (snd (snd (handleJoinLobby w p (Some payload)))) = heap (stamped w p pl False pp)"
  unfolding handleJoinLobby_ok [OF assms]
  by (simp add: split_def joinLobby_frame split: sum.splits)

lemma handleJoinLobby_early:
  "Server_Lobbies (snd (snd (handleJoinLobby w p None))) = Server_Lobbies w"
  "heap w p = None \<Longrightarrow> Server_Lobbies (snd (snd (handleJoinLobby w p d))) = Server_Lobbies w"
  "Payload_Player payload = None \<Longrightarrow>
     Server_Lobbies (snd (snd (handleJoinLobby w p (Some payload)))) = Server_Lobbies w"
  "Payload_Lobby payload = None \<Longrightarrow>
     Server_Lobbies (snd (snd (handleJoinLobby w p (Some payload)))) = Server_Lobbies w"
  by (simp_all add: handleJoinLobby_def Let_def split_def split: option.splits)

lemma lobbies_ok_handleJoinLobby:
  assumes ok: "lobbies_ok w"
  shows "lobbies_ok (snd (snd (handleJoinLobby w p d)))"
proof (cases d)
  case None
  with ok show ?thesis by (simp add: lobbies_ok_def handleJoinLobby_early)
next
  case d: (Some payload)
  show ?thesis
  proof (cases "heap w p")
    case None
    with ok show ?thesis by (simp add: lobbies_ok_def handleJoinLobby_early)
  next
    case h: (Some pl)
    show ?thesis
    proof (cases "Payload_Player payload")
      case None
      with ok d show ?thesis by (simp add: lobbies_ok_def handleJoinLobby_early)
    next
      case pp: (Some pp)
      show ?thesis
      proof (cases "Payload_Lobby payload")
        case None
        with ok d show ?thesis by (simp add: lobbies_ok_def handleJoinLobby_early)
      next
        case lb: (Some lb)
        have "lobbies_ok (stamped w p pl False pp)"
          using ok by (simp add: lobbies_ok_def)
        then have "lobbies_ok (snd (snd (joinLobby (stamped w p pl False pp) p (Lobby_ID lb))))"
          by (rule lobbies_ok_joinLobby)
        then show ?thesis
          unfolding d lobbies_ok_def handleJoinLobby_registry [OF h pp lb] .
      qed
    qed
  qed
qed

lemma handlerPlayerQuit_lobbies:
  "Server_Lobbies (snd (snd (handlerPlayerQuit w p))) = Server_Lobbies w"
  by (simp add: handlerPlayerQuit_def split: option.splits)

lemma connect_lobbies: "Server_Lobbies (snd (snd (connect w uuid))) = Server_Lobbies w"
  by (simp add: connect_def Let_def)

lemma lobbies_ok_step: "lobbies_ok w \<Longrightarrow> lobbies_ok (step w e)"
  by (cases e)
    (simp_all add: dispatch_def lobbies_ok_handleCreateLobby lobbies_ok_handleJoinLobby
      lobbies_ok_same [OF handlerPlayerQuit_lobbies] lobbies_ok_same [OF connect_lobbies]
      lobbies_ok_same [OF writer_frame(1)] lobbies_ok_same [OF resume_frame(1)])

lemma lobbies_ok_run: "lobbies_ok w \<Longrightarrow> lobbies_ok (run w evs)"
  unfolding run_def by (induction evs arbitrary: w) (simp_all add: lobbies_ok_step)

lemma run_lobbies_ok: "lobbies_ok (run server evs)"
  by (rule lobbies_ok_run [OF lobbies_ok_server])

subsection \<open>The session directory after each operation\<close>

lemma directory_ok_server: "directory_ok server"
  by (simp add: directory_ok_def ids_def server_def)

lemma directory_ok_same:
  assumes "directory_ok w" "Server_Players w' = Server_Players w" "ids w' = ids w"
    "nextRef w' = nextRef w"
  shows "directory_ok w'"
  using assms by (simp add: directory_ok_def)

lemma ids_same: "heap w' = heap w \<Longrightarrow> ids w' = ids w"
  by (rule ext) (simp add: ids_def)

lemma handleCreateLobby_heap:
  "heap (snd (snd (handleCreateLobby w p d uuid))) =
     (case d of None \<Rightarrow> heap w
      | Some payload \<Rightarrow>
         (case heap w p of None \<Rightarrow> heap w
          | Some pl \<Rightarrow>
             (case Payload_Player payload of
                None \<Rightarrow> (heap w)(p \<mapsto> pl\<lparr>Player_IsHost := True\<rparr>)
              | Some pp \<Rightarrow> heap (stamped w p pl True pp))))"
  by (simp add: handleCreateLobby_def createLobby_def stamped_def Let_def split_def
      split: option.splits)

lemma handleJoinLobby_heap_cases:
  "heap (snd (snd (handleJoinLobby w p d))) =
     (case d of None \<Rightarrow> heap w
      | Some payload \<Rightarrow>
         (case heap w p of None \<Rightarrow> heap w
          | Some pl \<Rightarrow>
             (case Payload_Player payload of
                None \<Rightarrow> (heap w)(p \<mapsto> pl\<lparr>Player_IsHost := False\<rparr>)
              | Some pp \<Rightarrow> heap (stamped w p pl False pp))))"
  by (simp add: handleJoinLobby_def stamped_def Let_def split_def joinLobby_frame
      split: option.splits sum.splits)

lemma handleCreateLobby_frame:
  "Server_Players (snd (snd (handleCreateLobby w p d uuid))) = Server_Players w"
  "ids (snd (snd (handleCreateLobby w p d uuid))) = ids w"
  "nextRef (snd (snd (handleCreateLobby w p d uuid))) = nextRef w"
    apply (simp add: handleCreateLobby_def createLobby_def Let_def split_def split: option.splits)
   apply (rule ext)
   apply (simp add: ids_def handleCreateLobby_heap stamped_def split: option.splits)
  apply (simp add: handleCreateLobby_def createLobby_def Let_def split_def split: option.splits)
  done

lemma handleJoinLobby_frame:
  "Server_Players (snd (snd (handleJoinLobby w p d))) = Server_Players w"
  "ids (snd (snd (handleJoinLobby w p d))) = ids w"
  "nextRef (snd (snd (handleJoinLobby w p d))) = nextRef w"
    apply (simp add: handleJoinLobby_def Let_def split_def joinLobby_frame
      split: option.splits sum.splits)
   apply (rule ext)
   apply (simp add: ids_def handleJoinLobby_heap_cases stamped_def split: option.splits)
  apply (simp add: handleJoinLobby_def Let_def split_def joinLobby_frame
      split: option.splits sum.splits)
  done

lemma handlerPlayerQuit_frame:
  "Server_Players (snd (snd (handlerPlayerQuit w p))) =
     (case heap w p of None \<Rightarrow> Server_Players w
      | Some pl \<Rightarrow> (Server_Players w)(Player_ID pl := None))"
  "heap (snd (snd (handlerPlayerQuit w p))) = heap w"
  "nextRef (snd (snd (handlerPlayerQuit w p))) = nextRef w"
  by (simp_all add: handlerPlayerQuit_def split: option.splits)

lemma directory_ok_handlerPlayerQuit:
  "directory_ok w \<Longrightarrow> directory_ok (snd (snd (handlerPlayerQuit w p)))"
  by (auto simp: directory_ok_def ids_def handlerPlayerQuit_frame split: option.splits)

lemma directory_ok_connect: "directory_ok w \<Longrightarrow> directory_ok (snd (snd (connect w uuid)))"
  unfolding directory_ok_def ids_def connect_def Let_def
  by (auto simp: less_Suc_eq)

lemma directory_ok_step: "directory_ok w \<Longrightarrow> directory_ok (step w e)"
proof (cases e)
  case (Connect uuid)
  assume "directory_ok w"
  then show ?thesis unfolding Connect by (simp add: directory_ok_connect)
next
  case (Inbound p ty d uuid)
  assume ok: "directory_ok w"
  show ?thesis
    unfolding Inbound
    by (simp add: dispatch_def ok directory_ok_handlerPlayerQuit
        directory_ok_same [OF ok handleCreateLobby_frame]
        directory_ok_same [OF ok handleJoinLobby_frame])
next
  case (Write p ok)
  assume "directory_ok w"
  then show ?thesis
    unfolding Write by (simp add: directory_ok_def ids_def)
next
  case (Resume p)
  assume "directory_ok w"
  then show ?thesis
    unfolding Resume by (simp add: directory_ok_def ids_def)
qed

lemma directory_ok_run: "directory_ok w \<Longrightarrow> directory_ok (run w evs)"
  unfolding run_def by (induction evs arbitrary: w) (simp_all add: directory_ok_step)

lemma run_directory_ok: "directory_ok (run server evs)"
  by (rule directory_ok_run [OF directory_ok_server])

subsection \<open>The shape of the messages\<close>

lemma envelopeShape_marshalWsMessage:
  "envelopeShape (marshalWsMessage ty payloadJson) = (ty \<in> set outboundTypes)"
  by (simp add: envelopeShape_def marshalWsMessage_def)

lemma envelopeShape_generate:
  "envelopeShape (generateConnectedMsg w p)"
  "envelopeShape (generateLobbyCreatedMsg w lobby)"
  "envelopeShape (generateLobbyJoinedMsg w lobby)"
  by (simp_all add: generateConnectedMsg_def generateLobbyCreatedMsg_def
      generateLobbyJoinedMsg_def envelopeShape_marshalWsMessage outboundTypes_def)

lemma outboundShape_generate:
  "outboundShape (generateConnectedMsg w p)"
  "outboundShape (generateLobbyCreatedMsg w lobby)"
  "outboundShape (generateLobbyJoinedMsg w lobby)"
  "outboundShape (errorResponse (Error err))"
  by (auto simp: outboundShape_def envelopeShape_generate)

text \<open>The sends a handler sets out to perform.\<close>

lemma handleCreateLobby_result:
  "(\<exists>out. handleCreateLobby w p d uuid = (out, [], snd (snd (handleCreateLobby w p d uuid))) \<and>
        chans (snd (snd (handleCreateLobby w p d uuid))) = chans w \<and>
        pending (snd (snd (handleCreateLobby w p d uuid))) = pending w) \<or>
   (\<exists>w3 lobby. handleCreateLobby w p d uuid =
        performSends w3 p [(p, generateLobbyCreatedMsg w3 lobby)] \<and>
        chans w3 = chans w \<and> pending w3 = pending w)"
proof (cases "\<exists>payload pl pp. d = Some payload \<and> heap w p = Some pl \<and>
    Payload_Player payload = Some pp \<and> 6 \<le> length uuid")
  case False
  then have "handleCreateLobby w p d uuid =
      (fst (handleCreateLobby w p d uuid), [], snd (snd (handleCreateLobby w p d uuid))) \<and>
        chans (snd (snd (handleCreateLobby w p d uuid))) = chans w \<and>
        pending (snd (snd (handleCreateLobby w p d uuid))) = pending w"
    by (auto simp: handleCreateLobby_def createLobby_def Let_def split: option.splits)
  then show ?thesis by blast
next
  case True
  then obtain payload pl pp where d: "d = Some payload" and h: "heap w p = Some pl"
    and pp: "Payload_Player payload = Some pp" and u: "6 \<le> length uuid"
    by blast
  show ?thesis
    unfolding d handleCreateLobby_ok [OF h pp u] Let_def
    by (rule disjI2, intro exI conjI, rule refl) simp_all
qed

lemma handleJoinLobby_result:
  "(\<exists>out. handleJoinLobby w p d = (out, [], snd (snd (handleJoinLobby w p d))) \<and>
        chans (snd (snd (handleJoinLobby w p d))) = chans w \<and>
        pending (snd (snd (handleJoinLobby w p d))) = pending w) \<or>
   (\<exists>w3 msgs. handleJoinLobby w p d = performSends w3 p msgs \<and>
        chans w3 = chans w \<and> pending w3 = pending w \<and>
        (\<forall>s \<in> set msgs. outboundShape (snd s)))"
proof (cases "\<exists>payload pl pp lb. d = Some payload \<and> heap w p = Some pl \<and>
    Payload_Player payload = Some pp \<and> Payload_Lobby payload = Some lb")
  case False
  then have "handleJoinLobby w p d = (fst (handleJoinLobby w p d), [], snd (snd (handleJoinLobby w p d))) \<and>
        chans (snd (snd (handleJoinLobby w p d))) = chans w \<and>
        pending (snd (snd (handleJoinLobby w p d))) = pending w"
    by (auto simp: handleJoinLobby_def Let_def split: option.splits)
  then show ?thesis by blast
next
  case True
  then obtain payload pl pp lb where d: "d = Some payload" and h: "heap w p = Some pl"
    and pp: "Payload_Player payload = Some pp" and lb: "Payload_Lobby payload = Some lb"
    by blast
  let ?j = "joinLobby (stamped w p pl False pp) p (Lobby_ID lb)"
  let ?w3 = "snd (snd ?j)"
  have fr: "chans ?w3 = chans w" "pending ?w3 = pending w"
    by (simp_all add: joinLobby_frame)
  show ?thesis
  proof (cases "fst ?j")
    case (Inl err)
    then have "handleJoinLobby w p d = performSends ?w3 p [(p, errorResponse (Error err))]"
      unfolding d handleJoinLobby_ok [OF h pp lb] by (simp add: split_def)
    with fr show ?thesis
      by (intro disjI2 exI [of _ ?w3] exI [of _ "[(p, errorResponse (Error err))]"])
        (simp add: outboundShape_generate)
  next
    case (Inr lobby)
    let ?msgs = "map (\<lambda>q. (q, generateLobbyJoinedMsg ?w3 (Some lobby))) (Lobby_Players lobby)"
    from Inr have "handleJoinLobby w p d = performSends ?w3 p ?msgs"
      unfolding d handleJoinLobby_ok [OF h pp lb] by (simp add: split_def)
    with fr show ?thesis
      by (intro disjI2 exI [of _ ?w3] exI [of _ ?msgs]) (auto simp: outboundShape_generate)
  qed
qed

lemma sendAll_left: "set (fst (snd (sendAll w msgs))) \<subseteq> set msgs"
  using sendAll_parts [of w msgs] by (metis set_append Un_upper2)

lemma sendAll_done: "set (fst (sendAll w msgs)) \<subseteq> set msgs"
  using sendAll_parts [of w msgs] by (metis set_append Un_upper1)

lemma sendAll_chans:
  "m \<in> set (chans (snd (snd (sendAll w msgs))) q) \<Longrightarrow>
     m \<in> set (chans w q) \<or> m \<in> snd ` set msgs"
proof (induction w msgs rule: sendAll.induct)
  case (1 w)
  then show ?case by simp
next
  case (2 w r x rest)
  show ?case
  proof (cases "length (chans w r) < sendChanCap")
    case True
    with 2 show ?thesis
      by (auto simp: split_def split: if_splits)
  next
    case False
    with 2 show ?thesis by simp
  qed
qed

lemma messages_ok_server: "messages_ok server"
  by (simp add: messages_ok_def server_def)

lemma messages_ok_performSends:
  assumes ok: "messages_ok w" and msgs: "\<forall>s \<in> set msgs. outboundShape (snd s)"
  shows "messages_ok (snd (snd (performSends w p msgs)))"
proof -
  have c: "outboundShape m" if "m \<in> set (chans (snd (snd (sendAll w msgs))) q)" for m q
    using sendAll_chans [OF that] ok msgs by (auto simp: messages_ok_def)
  have l: "outboundShape (snd s)" if "s \<in> set (fst (snd (sendAll w msgs)))" for s
    using that sendAll_left [of w msgs] msgs by auto
  have p: "outboundShape (snd s)" if "s \<in> set (pending w r)" for s r
    using that ok unfolding messages_ok_def by blast
  show ?thesis
    unfolding messages_ok_def performSends_def split_def
    using c l p by (auto simp: sendAll_frame)
qed

lemma messages_ok_resume:
  assumes ok: "messages_ok w"
  shows "messages_ok (snd (resume w p))"
proof -
  from ok have msgs: "\<forall>s \<in> set (pending w p). outboundShape (snd s)"
    by (auto simp: messages_ok_def)
  have c: "outboundShape m" if "m \<in> set (chans (snd (snd (sendAll w (pending w p)))) q)" for m q
    using sendAll_chans [OF that] ok msgs by (auto simp: messages_ok_def)
  have l: "outboundShape (snd s)" if "s \<in> set (fst (snd (sendAll w (pending w p))))" for s
    using that sendAll_left [of w "pending w p"] msgs by auto
  have p: "outboundShape (snd s)" if "s \<in> set (pending w r)" for s r
    using that ok unfolding messages_ok_def by blast
  show ?thesis
    unfolding messages_ok_def resume_def split_def
    using c l p by (auto simp: sendAll_frame)
qed

lemma messages_ok_writer:
  assumes "messages_ok w"
  shows "messages_ok (writer w p ok)"
proof -
  have "set (chans (writer w p ok) q) \<subseteq> set (chans w q)" for q
    by (auto simp: writer_def split: list.splits)
  with assms show ?thesis
    unfolding messages_ok_def by (simp add: subset_iff) blast
qed

lemma messages_ok_connect: "messages_ok w \<Longrightarrow> messages_ok (snd (snd (connect w uuid)))"
  by (auto simp: messages_ok_def connect_def Let_def outboundShape_generate split: if_splits)

lemma messages_ok_same:
  "messages_ok w \<Longrightarrow> chans w' = chans w \<Longrightarrow> pending w' = pending w \<Longrightarrow> messages_ok w'"
  by (simp add: messages_ok_def)

lemma messages_ok_handleCreateLobby:
  assumes ok: "messages_ok w"
  shows "messages_ok (snd (snd (handleCreateLobby w p d uuid)))"
  using handleCreateLobby_result [of w p d uuid]
proof (elim disjE exE conjE)
  fix out
  assume "chans (snd (snd (handleCreateLobby w p d uuid))) = chans w"
    "pending (snd (snd (handleCreateLobby w p d uuid))) = pending w"
  with ok show ?thesis by (simp add: messages_ok_def)
next
  fix w3 lobby
  assume r: "handleCreateLobby w p d uuid = performSends w3 p [(p, generateLobbyCreatedMsg w3 lobby)]"
    and "chans w3 = chans w" "pending w3 = pending w"
  with ok have "messages_ok w3" by (simp add: messages_ok_def)
  then show ?thesis
    unfolding r by (rule messages_ok_performSends) (simp add: outboundShape_generate)
qed

lemma messages_ok_handleJoinLobby:
  assumes ok: "messages_ok w"
  shows "messages_ok (snd (snd (handleJoinLobby w p d)))"
  using handleJoinLobby_result [of w p d]
proof (elim disjE exE conjE)
  fix out
  assume "chans (snd (snd (handleJoinLobby w p d))) = chans w"
    "pending (snd (snd (handleJoinLobby w p d))) = pending w"
  with ok show ?thesis by (simp add: messages_ok_def)
next
  fix w3 msgs
  assume r: "handleJoinLobby w p d = performSends w3 p msgs"
    and m: "\<forall>s \<in> set msgs. outboundShape (snd s)"
    and "chans w3 = chans w" "pending w3 = pending w"
  with ok have "messages_ok w3" by (simp add: messages_ok_def)
  then show ?thesis
    unfolding r using m by (rule messages_ok_performSends)
qed

lemma messages_ok_step: "messages_ok w \<Longrightarrow> messages_ok (step w e)"
proof (cases e)
  case (Connect uuid)
  assume "messages_ok w"
  then show ?thesis unfolding Connect by (simp add: messages_ok_connect)
next
  case (Inbound p ty d uuid)
  assume ok: "messages_ok w"
  have "messages_ok (snd (snd (handlerPlayerQuit w p)))"
    using ok by (simp add: messages_ok_def handlerPlayerQuit_def split: option.splits)
  with ok show ?thesis
    unfolding Inbound
    by (simp add: dispatch_def messages_ok_handleCreateLobby messages_ok_handleJoinLobby)
next
  case (Write p ok)
  assume "messages_ok w"
  then show ?thesis unfolding Write by (simp add: messages_ok_writer)
next
  case (Resume p)
  assume "messages_ok w"
  then show ?thesis unfolding Resume by (simp add: messages_ok_resume)
qed

lemma messages_ok_run: "messages_ok w \<Longrightarrow> messages_ok (run w evs)"
  unfolding run_def by (induction evs arbitrary: w) (simp_all add: messages_ok_step)

lemma run_messages_ok: "messages_ok (run server evs)"
  by (rule messages_ok_run [OF messages_ok_server])

lemma handleCreateLobby_sends:
  assumes "s \<in> set (fst (snd (handleCreateLobby w p d uuid)))"
  shows "outboundShape (snd s)"
  using handleCreateLobby_result [of w p d uuid]
proof (elim disjE exE conjE)
  fix out
  assume "handleCreateLobby w p d uuid = (out, [], snd (snd (handleCreateLobby w p d uuid)))"
  then have "fst (snd (handleCreateLobby w p d uuid)) = []"
    by (metis fst_conv snd_conv)
  with assms show ?thesis by simp
next
  fix w3 lobby
  assume r: "handleCreateLobby w p d uuid = performSends w3 p [(p, generateLobbyCreatedMsg w3 lobby)]"
  from assms performSends_sends [of w3 p "[(p, generateLobbyCreatedMsg w3 lobby)]"]
  have "s = (p, generateLobbyCreatedMsg w3 lobby)"
    unfolding r by auto
  then show ?thesis by (simp add: outboundShape_generate)
qed

lemma handleJoinLobby_sends:
  assumes "s \<in> set (fst (snd (handleJoinLobby w p d)))"
  shows "outboundShape (snd s)"
  using handleJoinLobby_result [of w p d]
proof (elim disjE exE conjE)
  fix out
  assume "handleJoinLobby w p d = (out, [], snd (snd (handleJoinLobby w p d)))"
  then have "fst (snd (handleJoinLobby w p d)) = []"
    by (metis fst_conv snd_conv)
  with assms show ?thesis by simp
next
  fix w3 msgs
  assume r: "handleJoinLobby w p d = performSends w3 p msgs"
    and m: "\<forall>s \<in> set msgs. outboundShape (snd s)"
  from assms performSends_sends [of w3 p msgs] have "s \<in> set msgs"
    unfolding r by auto
  with m show ?thesis by simp
qed

lemma sends_shape_frames:
  assumes "s \<in> set (sends w e)" and "\<not> isResume e"
  shows "outboundShape (snd s)"
proof (cases e)
  case (Connect uuid)
  with assms show ?thesis
    by (simp add: connect_def Let_def outboundShape_generate)
next
  case (Inbound p ty d uuid)
  with assms show ?thesis
    by (auto simp: dispatch_def handlerPlayerQuit_def
        dest: handleCreateLobby_sends handleJoinLobby_sends split: if_splits option.splits)
next
  case (Write p ok)
  with assms show ?thesis by simp
next
  case (Resume p)
  with assms show ?thesis by simp
qed

lemma sends_shape_run:
  assumes "s \<in> set (sends (run server evs) e)"
  shows "outboundShape (snd s)"
proof (cases "isResume e")
  case False
  with assms show ?thesis by (rule sends_shape_frames)
next
  case True
  then obtain p where e: "e = Resume p" by (cases e) simp_all
  from assms have "s \<in> set (pending (run server evs) p)"
    unfolding e using sendAll_done [of "run server evs" "pending (run server evs) p"]
    by (auto simp: resume_def split_def)
  with run_messages_ok [of evs] show ?thesis
    unfolding messages_ok_def by blast
qed

subsection \<open>Lobbies and player objects, event by event\<close>








subsection \<open>What a handler sends\<close>












subsection \<open>Filling a channel\<close>



subsection \<open>A full channel without a writer\<close>








section \<open>The registry\<close>

text \<open>
  Claim C1, as the specification states it: lobby codes are unique among the registered
  lobbies, and creating a lobby never replaces or removes a registered lobby, a fresh code
  being drawn on a collision. \<^verbatim>\<open>createLobby\<close> draws one code and stores under it without
  looking: after session 0 has created a lobby, a \<^verbatim>\<open>CreateLobby\<close> of session 1 that draws
  a uuid with the same first six characters leaves session 1's lobby where session 0's
  was.
\<close>

theorem createLobby_replaces_entry:
  "Server_Lobbies (run server oneCreate) ''3f2a9c'' =
     Some \<lparr>Lobby_ID = ''3f2a9c'', Lobby_Players = [0]\<rparr> \<and>
   Server_Lobbies
     (run server (oneCreate @ [Inbound 1 WsMessageTypeCreateLobby (createFrame ''B'' 1) uuid2]))
     ''3f2a9c'' =
     Some \<lparr>Lobby_ID = ''3f2a9c'', Lobby_Players = [1]\<rparr>"
  by (simp add: eval_defs)

text \<open>
  Claim C1, amended: after every run, two lobbies registered under different codes have
  different ids, since each is registered under its own id; and \<^verbatim>\<open>createLobby\<close> stores
  the new lobby, with its creator as only member, under the first six characters of the
  uuid it draws, replacing whatever was registered there and leaving the entry of every
  other code as it was.
\<close>

theorem lobby_codes_distinct:
  "(Server_Lobbies (run server evs) c = Some l \<and> Server_Lobbies (run server evs) c' = Some l' \<and>
      c \<noteq> c' \<longrightarrow> Lobby_ID l \<noteq> Lobby_ID l') \<and>
   (6 \<le> length uuid \<longrightarrow>
      Server_Lobbies (snd (snd (createLobby s p uuid))) (take 6 uuid) =
        Some \<lparr>Lobby_ID = take 6 uuid, Lobby_Players = [p]\<rparr> \<and>
      (k \<noteq> take 6 uuid \<longrightarrow>
         Server_Lobbies (snd (snd (createLobby s p uuid))) k = Server_Lobbies s k))"
proof -
  have "Lobby_ID l \<noteq> Lobby_ID l'"
    if "Server_Lobbies (run server evs) c = Some l" "Server_Lobbies (run server evs) c' = Some l'"
      "c \<noteq> c'"
    using run_lobbies_ok [of evs] that unfolding lobbies_ok_def by metis
  then show ?thesis
    by (simp add: createLobby_lobbies)
qed

theorem lobby_codes_distinct_witness:
  "Server_Lobbies (run server twoLobbies) ''3f2a9c'' =
     Some \<lparr>Lobby_ID = ''3f2a9c'', Lobby_Players = [0]\<rparr> \<and>
   Server_Lobbies (run server twoLobbies) ''b81d4f'' =
     Some \<lparr>Lobby_ID = ''b81d4f'', Lobby_Players = [1]\<rparr> \<and>
   ''3f2a9c'' \<noteq> ''b81d4f'' \<and>
   Lobby_ID \<lparr>Lobby_ID = ''3f2a9c'', Lobby_Players = [0::nat]\<rparr> \<noteq>
     Lobby_ID \<lparr>Lobby_ID = ''b81d4f'', Lobby_Players = [1::nat]\<rparr> \<and>
   6 \<le> length uuid2 \<and>
   Server_Lobbies (snd (snd (createLobby (run server twoLobbies) 1 uuid2))) (take 6 uuid2) =
     Some \<lparr>Lobby_ID = take 6 uuid2, Lobby_Players = [1]\<rparr> \<and>
   ''b81d4f'' \<noteq> take 6 uuid2 \<and>
   Server_Lobbies (snd (snd (createLobby (run server twoLobbies) 1 uuid2))) ''b81d4f'' =
     Server_Lobbies (run server twoLobbies) ''b81d4f''"
  using lobby_codes_distinct [where evs = twoLobbies and c = "''3f2a9c''"
      and l = "\<lparr>Lobby_ID = ''3f2a9c'', Lobby_Players = [0]\<rparr>" and c' = "''b81d4f''"
      and l' = "\<lparr>Lobby_ID = ''b81d4f'', Lobby_Players = [1]\<rparr>" and uuid = uuid2
      and s = "run server twoLobbies" and p = 1 and k = "''b81d4f''"]
  by (simp add: eval_defs)

text \<open>
  Claim C2: after every run each registered lobby has one or two members; a lobby is
  created with exactly one member, its creator; and \<^verbatim>\<open>joinLobby\<close> on a lobby that has two
  members (or more) returns the error of a full lobby and leaves the state as it was.
\<close>

theorem lobby_member_count:
  "(Server_Lobbies (run server evs) c = Some l \<longrightarrow> length (Lobby_Players l) \<in> {1, 2}) \<and>
   (6 \<le> length uuid \<longrightarrow>
      fst (createLobby t p uuid) = Some (Inr \<lparr>Lobby_ID = take 6 uuid, Lobby_Players = [p]\<rparr>)) \<and>
   (Server_Lobbies s k = Some m \<and> 2 \<le> length (Lobby_Players m) \<longrightarrow>
      fst (joinLobby s q k) = Inl (LobbyFull k) \<and> snd (snd (joinLobby s q k)) = s)"
proof -
  have "length (Lobby_Players l) \<in> {1, 2}" if "Server_Lobbies (run server evs) c = Some l"
    using run_lobbies_ok [of evs] that unfolding lobbies_ok_def by auto
  then show ?thesis
    by (simp add: createLobby_def joinLobby_def Let_def)
qed

theorem lobby_member_count_witness:
  "Server_Lobbies (run server fullLobby) ''3f2a9c'' =
     Some \<lparr>Lobby_ID = ''3f2a9c'', Lobby_Players = [0, 1]\<rparr> \<and>
   length (Lobby_Players \<lparr>Lobby_ID = ''3f2a9c'', Lobby_Players = [0::nat, 1]\<rparr>) \<in> {1, 2} \<and>
   6 \<le> length uuid1 \<and>
   fst (createLobby server 0 uuid1) = Some (Inr \<lparr>Lobby_ID = ''3f2a9c'', Lobby_Players = [0]\<rparr>) \<and>
   2 \<le> length (Lobby_Players \<lparr>Lobby_ID = ''3f2a9c'', Lobby_Players = [0::nat, 1]\<rparr>) \<and>
   fst (joinLobby (run server fullLobby) 2 ''3f2a9c'') = Inl (LobbyFull ''3f2a9c'') \<and>
   Server_Lobbies (snd (snd (joinLobby (run server fullLobby) 2 ''3f2a9c''))) ''3f2a9c'' =
     Some \<lparr>Lobby_ID = ''3f2a9c'', Lobby_Players = [0, 1]\<rparr>"
  using lobby_member_count [where evs = fullLobby and c = "''3f2a9c''"
      and l = "\<lparr>Lobby_ID = ''3f2a9c'', Lobby_Players = [0, 1]\<rparr>" and uuid = uuid1
      and t = server and p = 0 and s = "run server fullLobby" and k = "''3f2a9c''"
      and m = "\<lparr>Lobby_ID = ''3f2a9c'', Lobby_Players = [0, 1]\<rparr>" and q = 2]
  by (simp add: eval_defs)

text \<open>
  Claim C5: \<^verbatim>\<open>joinLobby\<close> with a code that is not registered returns the error of an
  unknown lobby and leaves the state as it was; \<^verbatim>\<open>handleJoinLobby\<close> on a frame naming
  such a code leaves the registry, with every lobby in it, as it was.
\<close>

theorem joinLobby_unknown_code:
  "(Server_Lobbies s c = None \<longrightarrow>
      fst (joinLobby s p c) = Inl (LobbyNotFound c) \<and> snd (snd (joinLobby s p c)) = s) \<and>
   (Payload_Lobby payload = Some lb \<and> Server_Lobbies w (Lobby_ID lb) = None \<longrightarrow>
      Server_Lobbies (snd (snd (handleJoinLobby w q (Some payload)))) = Server_Lobbies w)"
proof -
  have "Server_Lobbies (snd (snd (handleJoinLobby w q (Some payload)))) = Server_Lobbies w"
    if lb: "Payload_Lobby payload = Some lb" and c: "Server_Lobbies w (Lobby_ID lb) = None"
  proof (cases "heap w q")
    case None
    then show ?thesis by (simp add: handleJoinLobby_early)
  next
    case h: (Some pl)
    show ?thesis
    proof (cases "Payload_Player payload")
      case None
      then show ?thesis by (simp add: handleJoinLobby_early)
    next
      case pp: (Some pp)
      show ?thesis
        unfolding handleJoinLobby_registry [OF h pp lb]
        using c by (simp add: joinLobby_unknown)
    qed
  qed
  then show ?thesis
    by (simp add: joinLobby_unknown)
qed

theorem joinLobby_unknown_code_witness:
  "Server_Lobbies (run server oneCreate) ''b81d4f'' = None \<and>
   fst (joinLobby (run server oneCreate) 1 ''b81d4f'') = Inl (LobbyNotFound ''b81d4f'') \<and>
   Server_Lobbies (snd (snd (joinLobby (run server oneCreate) 1 ''b81d4f''))) ''3f2a9c'' =
     Some \<lparr>Lobby_ID = ''3f2a9c'', Lobby_Players = [0]\<rparr> \<and>
   Server_Lobbies (snd (snd (handleJoinLobby (run server oneCreate) 1 (joinFrame ''B'' 1 ''b81d4f''))))
     ''3f2a9c'' = Some \<lparr>Lobby_ID = ''3f2a9c'', Lobby_Players = [0]\<rparr>"
  using joinLobby_unknown_code [where s = "run server oneCreate" and c = "''b81d4f''" and p = 1
      and payload = "the (joinFrame ''B'' 1 ''b81d4f'')"
      and lb = "\<lparr>Lobby_ID = ''b81d4f'', Lobby_Players = []\<rparr>"
      and w = "run server oneCreate" and q = 1]
  by (simp add: eval_defs)

section \<open>The messages of a join\<close>








section \<open>Member order and the host flag\<close>




section \<open>Quitting\<close>

text \<open>
  Claim C8: a \<^verbatim>\<open>PlayerQuit\<close> frame of a session, after any run and whatever its payload,
  returns without sending anything; afterwards no entry is registered under the session's
  id and no entry of the directory refers to the session, the entry of every other id is
  as before, and the registry of lobbies with all member lists, the player objects, the
  channels, the suspended sends and the writers are as before.
\<close>

theorem quit_removes_session_only:
  "heap (run server evs) p = Some pl \<longrightarrow>
     (let r = dispatch (run server evs) p WsMessageTypePlayerQuit decoded uuid; w' = snd (snd r)
      in fst r = Returned \<and> fst (snd r) = [] \<and>
         Server_Players w' (Player_ID pl) = None \<and> Server_Players w' k \<noteq> Some p \<and>
         (k \<noteq> Player_ID pl \<longrightarrow> Server_Players w' k = Server_Players (run server evs) k) \<and>
         Server_Lobbies w' = Server_Lobbies (run server evs) \<and> heap w' = heap (run server evs) \<and>
         nextRef w' = nextRef (run server evs) \<and>
         chans w' = chans (run server evs) \<and> pending w' = pending (run server evs) \<and>
         writers w' = writers (run server evs))"
proof
  let ?w = "run server evs"
  assume h: "heap ?w p = Some pl"
  have q: "dispatch ?w p WsMessageTypePlayerQuit decoded uuid =
      (Returned, [], ?w\<lparr>Server_Players := (Server_Players ?w)(Player_ID pl := None)\<rparr>)"
    using h by (simp add: dispatch_def handlerPlayerQuit_def WsMessageType_defs)
  have "Server_Players ?w k \<noteq> Some p" if "k \<noteq> Player_ID pl"
  proof
    assume "Server_Players ?w k = Some p"
    with run_directory_ok [of evs] have "ids ?w p = Some k"
      unfolding directory_ok_def by blast
    with h that show False by (simp add: ids_def)
  qed
  then show "let r = dispatch ?w p WsMessageTypePlayerQuit decoded uuid; w' = snd (snd r)
      in fst r = Returned \<and> fst (snd r) = [] \<and>
         Server_Players w' (Player_ID pl) = None \<and> Server_Players w' k \<noteq> Some p \<and>
         (k \<noteq> Player_ID pl \<longrightarrow> Server_Players w' k = Server_Players ?w k) \<and>
         Server_Lobbies w' = Server_Lobbies ?w \<and> heap w' = heap ?w \<and>
         nextRef w' = nextRef ?w \<and>
         chans w' = chans ?w \<and> pending w' = pending ?w \<and> writers w' = writers ?w"
    unfolding q by (simp add: Let_def)
qed

theorem quit_removes_session_only_witness:
  "heap (run server oneCreate) 1 =
     Some \<lparr>Player_ID = uuidB, Player_Nickname = [], Player_AvatarIdx = 0, Player_IsHost = False\<rparr> \<and>
   Server_Players (run server oneCreate) uuidB = Some 1 \<and>
   fst (dispatch (run server oneCreate) 1 WsMessageTypePlayerQuit None []) = Returned \<and>
   fst (snd (dispatch (run server oneCreate) 1 WsMessageTypePlayerQuit None [])) = [] \<and>
   Server_Players (snd (snd (dispatch (run server oneCreate) 1 WsMessageTypePlayerQuit None [])))
     uuidB = None \<and>
   uuidA \<noteq> uuidB \<and>
   Server_Players (snd (snd (dispatch (run server oneCreate) 1 WsMessageTypePlayerQuit None [])))
     uuidA = Some 0 \<and>
   Server_Lobbies (snd (snd (dispatch (run server oneCreate) 1 WsMessageTypePlayerQuit None [])))
     ''3f2a9c'' = Some \<lparr>Lobby_ID = ''3f2a9c'', Lobby_Players = [0]\<rparr>"
  using quit_removes_session_only [where evs = oneCreate and p = 1
      and pl = "\<lparr>Player_ID = uuidB, Player_Nickname = [], Player_AvatarIdx = 0, Player_IsHost = False\<rparr>"
      and decoded = None and uuid = "[]" and k = uuidA]
  by (simp add: eval_defs)

section \<open>Frames without a player or a lobby\<close>

text \<open>
  Claim C10: a payload that decodes without error but has no \<^verbatim>\<open>player\<close> makes
  \<^verbatim>\<open>handleCreateLobby\<close> and \<^verbatim>\<open>handleJoinLobby\<close> panic on reading \<^verbatim>\<open>payloadPlayer.AvatarIdx\<close>,
  after they have written \<^verbatim>\<open>IsHost\<close>; a payload with a \<^verbatim>\<open>player\<close> and no \<^verbatim>\<open>lobby\<close> makes
  \<^verbatim>\<open>handleJoinLobby\<close> panic on reading \<^verbatim>\<open>payload.Lobby.ID\<close>, after it has written the three
  fields. Only a payload that fails to decode is dropped with the state unchanged.
\<close>

theorem nil_payload_panics:
  "heap w p = Some pl \<longrightarrow>
     (Payload_Player payload = None \<longrightarrow>
        handleCreateLobby w p (Some payload) uuid =
          (Panicked, [], w\<lparr>heap := (heap w)(p \<mapsto> pl\<lparr>Player_IsHost := True\<rparr>)\<rparr>) \<and>
        handleJoinLobby w p (Some payload) =
          (Panicked, [], w\<lparr>heap := (heap w)(p \<mapsto> pl\<lparr>Player_IsHost := False\<rparr>)\<rparr>)) \<and>
     (Payload_Player payload = Some pp \<and> Payload_Lobby payload = None \<longrightarrow>
        handleJoinLobby w p (Some payload) = (Panicked, [], stamped w p pl False pp)) \<and>
     handleCreateLobby w p None uuid = (Returned, [], w) \<and>
     handleJoinLobby w p None = (Returned, [], w)"
  by (simp add: handleCreateLobby_def handleJoinLobby_def stamped_def Let_def)

theorem nil_payload_panics_witness:
  "heap (run server oneCreate) 0 =
     Some \<lparr>Player_ID = uuidA, Player_Nickname = ''A'', Player_AvatarIdx = 0, Player_IsHost = True\<rparr> \<and>
   Payload_Player (the emptyFrame) = None \<and>
   fst (handleCreateLobby (run server oneCreate) 0 emptyFrame uuid3) = Panicked \<and>
   fst (handleJoinLobby (run server oneCreate) 0 emptyFrame) = Panicked \<and>
   heap (snd (snd (handleJoinLobby (run server oneCreate) 0 emptyFrame))) 0 =
     Some \<lparr>Player_ID = uuidA, Player_Nickname = ''A'', Player_AvatarIdx = 0, Player_IsHost = False\<rparr> \<and>
   Payload_Player (the (createFrame ''A'' 3)) = Some (framePlayer ''A'' 3) \<and>
   Payload_Lobby (the (createFrame ''A'' 3)) = None \<and>
   fst (handleJoinLobby (run server oneCreate) 0 (createFrame ''A'' 3)) = Panicked \<and>
   heap (snd (snd (handleJoinLobby (run server oneCreate) 0 (createFrame ''A'' 3)))) 0 =
     Some \<lparr>Player_ID = uuidA, Player_Nickname = ''A'', Player_AvatarIdx = 3, Player_IsHost = False\<rparr>"
  using
    nil_payload_panics [where w = "run server oneCreate" and p = 0
      and pl = "\<lparr>Player_ID = uuidA, Player_Nickname = ''A'', Player_AvatarIdx = 0, Player_IsHost = True\<rparr>"
      and payload = "the emptyFrame" and uuid = uuid3]
    nil_payload_panics [where w = "run server oneCreate" and p = 0
      and pl = "\<lparr>Player_ID = uuidA, Player_Nickname = ''A'', Player_AvatarIdx = 0, Player_IsHost = True\<rparr>"
      and payload = "the (createFrame ''A'' 3)" and pp = "framePlayer ''A'' 3" and uuid = uuid3]
  by (simp add: eval_defs stamped_def)

section \<open>The shape of outbound messages\<close>

text \<open>
  Claim C7, as the specification states it: every outbound message, the \<^verbatim>\<open>Error\<close>
  message included, is an envelope \<open>{type, payload}\<close>. The message \<^verbatim>\<open>errorResponse\<close>
  builds, which a failed join sends, has the members \<open>type\<close> and \<open>message\<close> and no
  \<open>payload\<close>.
\<close>

theorem error_message_not_enveloped:
  "fst (snd (handleJoinLobby (run server oneCreate) 1 (joinFrame ''B'' 1 ''b81d4f''))) =
     [(1, errorResponse (Error (LobbyNotFound ''b81d4f'')))] \<and>
   errorResponse (Error (LobbyNotFound ''b81d4f'')) =
     JObj [(''type'', JStr ''Error''),
           (''message'', JStr ''ERROR: lobby with id b81d4f not found'')] \<and>
   \<not> envelopeShape (errorResponse (Error (LobbyNotFound ''b81d4f'')))"
  by (simp add: eval_defs envelopeShape_def)

text \<open>
  Claim C7, amended: the \<^verbatim>\<open>Connected\<close>, \<^verbatim>\<open>LobbyCreated\<close> and \<^verbatim>\<open>LobbyJoined\<close> messages are
  envelopes \<open>{type, payload}\<close> with an outbound type; the \<^verbatim>\<open>Error\<close> message is the object
  \<open>{type: "Error", message}\<close>, its text a member of the object itself; and every message
  the server sends on a connection or a frame is of one of these two forms, as is, after
  any run, every message a resumed handler sends and every message queued in a channel.
\<close>

theorem outbound_shapes:
  "envelopeShape (generateConnectedMsg w p) \<and>
   envelopeShape (generateLobbyCreatedMsg w lobby) \<and>
   envelopeShape (generateLobbyJoinedMsg w lobby) \<and>
   errorResponse message = JObj [(''type'', JStr ''Error''), (''message'', JStr message)] \<and>
   ((q, m) \<in> set (sends w0 e) \<and> \<not> isResume e \<longrightarrow>
      envelopeShape m \<or> (\<exists>err. m = errorResponse (Error err))) \<and>
   ((q, m) \<in> set (sends (run server evs) e) \<longrightarrow>
      envelopeShape m \<or> (\<exists>err. m = errorResponse (Error err))) \<and>
   (m \<in> set (chans (run server evs) q) \<longrightarrow>
      envelopeShape m \<or> (\<exists>err. m = errorResponse (Error err)))"
proof -
  have 1: "envelopeShape m \<or> (\<exists>err. m = errorResponse (Error err))"
    if "(q, m) \<in> set (sends w0 e)" "\<not> isResume e"
    using sends_shape_frames [OF that] by (simp add: outboundShape_def)
  have 2: "envelopeShape m \<or> (\<exists>err. m = errorResponse (Error err))"
    if "(q, m) \<in> set (sends (run server evs) e)"
    using sends_shape_run [OF that] by (simp add: outboundShape_def)
  have 3: "envelopeShape m \<or> (\<exists>err. m = errorResponse (Error err))"
    if "m \<in> set (chans (run server evs) q)"
    using run_messages_ok [of evs] that unfolding messages_ok_def outboundShape_def by blast
  from 1 2 3 show ?thesis
    by (simp add: envelopeShape_generate errorResponse_def WsMessageTypeError_def)
qed

theorem outbound_shapes_witness:
  "(0, exampleJoinedMsg) \<in>
     set (sends (run server oneCreate)
       (Inbound 1 WsMessageTypeJoinLobby (joinFrame ''B'' 1 ''3f2a9c'') [])) \<and>
   \<not> isResume (Inbound 1 WsMessageTypeJoinLobby (joinFrame ''B'' 1 ''3f2a9c'') []) \<and>
   exampleJoinedMsg \<in> set (chans (run server pairedLobby) 0) \<and>
   envelopeShape exampleJoinedMsg"
  using outbound_shapes [where ?w0.0 = "run server oneCreate"
      and e = "Inbound 1 WsMessageTypeJoinLobby (joinFrame ''B'' 1 ''3f2a9c'') []"
      and q = 0 and m = exampleJoinedMsg and evs = pairedLobby]
  by (simp add: eval_defs exampleJoinedMsg_def envelopeShape_def outboundTypes_def)

section \<open>The locks of a join\<close>

text \<open>
  Claim C9, as the specification states it: \<^verbatim>\<open>joinLobby\<close> releases the lock of the registry
  before it takes the lock of the lobby, and never holds both. The unlock of the registry
  is deferred to the return of \<^verbatim>\<open>joinLobby\<close>: in a join that succeeds, the lock of the
  lobby is taken and released while the lock of the registry is held.
\<close>

theorem joinLobby_holds_both_locks:
  "fst (snd (joinLobby (run server oneCreate) 1 ''3f2a9c'')) =
     [Lock ServerMu, Lock (LobbyMu ''3f2a9c''), Unlock (LobbyMu ''3f2a9c''), Unlock ServerMu] \<and>
   holds [] (fst (snd (joinLobby (run server oneCreate) 1 ''3f2a9c''))) =
     [[], [ServerMu], [LobbyMu ''3f2a9c'', ServerMu], [ServerMu], []]"
  by (simp add: eval_defs)

text \<open>
  Claim C9, amended: \<^verbatim>\<open>joinLobby\<close> takes the lock of the registry first and releases it
  last, when it returns. When the join succeeds it takes and releases the lock of the
  lobby in between, so the lock of the lobby is held only while the lock of the registry
  is held (the order is never the reverse); when the join fails it takes no lock of a
  lobby. No lock is held when it returns.
\<close>

theorem joinLobby_lock_order:
  "(fst (snd (joinLobby s p c)) = [Lock ServerMu, Unlock ServerMu] \<or>
    fst (snd (joinLobby s p c)) =
      [Lock ServerMu, Lock (LobbyMu c), Unlock (LobbyMu c), Unlock ServerMu]) \<and>
   (Server_Lobbies s c = Some l \<and> length (Lobby_Players l) < 2 \<longrightarrow>
      fst (snd (joinLobby s p c)) =
        [Lock ServerMu, Lock (LobbyMu c), Unlock (LobbyMu c), Unlock ServerMu]) \<and>
   (h \<in> set (holds [] (fst (snd (joinLobby s p c)))) \<and> LobbyMu c \<in> set h \<longrightarrow>
      ServerMu \<in> set h) \<and>
   last (holds [] (fst (snd (joinLobby s p c)))) = []"
proof (cases "Server_Lobbies s c")
  case None
  then show ?thesis by (auto simp: joinLobby_unknown)
next
  case (Some a)
  show ?thesis
  proof (cases "2 \<le> length (Lobby_Players a)")
    case True
    with Some show ?thesis by (auto simp: joinLobby_full)
  next
    case False
    then have "length (Lobby_Players a) < 2" by simp
    from joinLobby_room [OF Some this] show ?thesis by auto
  qed
qed

theorem joinLobby_lock_order_witness:
  "Server_Lobbies (run server oneCreate) ''3f2a9c'' =
     Some \<lparr>Lobby_ID = ''3f2a9c'', Lobby_Players = [0]\<rparr> \<and>
   length (Lobby_Players \<lparr>Lobby_ID = ''3f2a9c'', Lobby_Players = [0::nat]\<rparr>) < 2 \<and>
   fst (snd (joinLobby (run server oneCreate) 1 ''3f2a9c'')) =
     [Lock ServerMu, Lock (LobbyMu ''3f2a9c''), Unlock (LobbyMu ''3f2a9c''), Unlock ServerMu] \<and>
   [LobbyMu ''3f2a9c'', ServerMu] \<in>
     set (holds [] (fst (snd (joinLobby (run server oneCreate) 1 ''3f2a9c'')))) \<and>
   LobbyMu ''3f2a9c'' \<in> set [LobbyMu ''3f2a9c'', ServerMu] \<and>
   ServerMu \<in> set [LobbyMu ''3f2a9c'', ServerMu] \<and>
   last (holds [] (fst (snd (joinLobby (run server oneCreate) 1 ''3f2a9c'')))) = []"
  using joinLobby_lock_order [where s = "run server oneCreate" and p = 1 and c = "''3f2a9c''"
      and l = "\<lparr>Lobby_ID = ''3f2a9c'', Lobby_Players = [0]\<rparr>"
      and h = "[LobbyMu ''3f2a9c'', ServerMu]"]
  by (simp add: eval_defs)

end
